theory Spec2Isabelle
  imports Complex_Main
begin

section \<open>The data of the two expression trees\<close>

text \<open>
  The module \<^verbatim>\<open>latexexpr_efficalc.sympy\<close> converts the LaTeX-oriented expression tree
  of \<^verbatim>\<open>latexexpr_efficalc\<close> into an expression of the external CAS (sympy), calls one
  CAS entry point on it and converts the result back.

  The operation tags are the constants \<^verbatim>\<open>_ADD\<close>, \<^verbatim>\<open>_SUB\<close>, ... of the library, which the
  module compares with \<^verbatim>\<open>==\<close> and looks up in the library's three tables of tags.
\<close>

datatype optag =
    Tag_NONE | Tag_ADD | Tag_SUB | Tag_MUL | Tag_DIV | Tag_DIV2 | Tag_NEG | Tag_POS
  | Tag_ABS | Tag_MAX | Tag_MIN | Tag_POW | Tag_ROOT | Tag_SQR | Tag_SQRT
  | Tag_SIN | Tag_COS | Tag_TAN | Tag_SINH | Tag_COSH | Tag_TANH
  | Tag_EXP | Tag_LOG | Tag_LN | Tag_LOG10
  | Tag_RBRACKETS | Tag_SBRACKETS | Tag_CBRACKETS | Tag_ABRACKETS

text \<open>
  An object the module can be handed. Of a \<^verbatim>\<open>Variable\<close> the module reads the name and
  the value (\<^verbatim>\<open>is_symbolic()\<close> is "the value is \<^verbatim>\<open>None\<close>"); of an \<^verbatim>\<open>Operation\<close> the
  fields \<^verbatim>\<open>type\<close>, \<^verbatim>\<open>args\<close>, \<^verbatim>\<open>format\<close> and \<^verbatim>\<open>exponent\<close>; of an \<^verbatim>\<open>Expression\<close> the
  field \<^verbatim>\<open>operation\<close>. The three \<^verbatim>\<open>isinstance\<close> tests of the module are taken as
  tests for three separate kinds of object, in the order the module writes them: its
  documentation shows \<^verbatim>\<open>simplify\<close> of an expression returning the simplified expression,
  which the branch for an \<^verbatim>\<open>Expression\<close> does and the branch for a \<^verbatim>\<open>Variable\<close> does not.
  \<open>Foreign\<close> is any other Python object, named by its class. A Python float is
  represented by the real it denotes, or is one of the three floats that denote none.
\<close>

datatype pyfloat = Finite real | PosInf | NegInf | NaN

datatype node =
    Variable string "pyfloat option"
  | Operation optag "node list" string int
  | Expression string node
  | Foreign string

text \<open>
  An expression of the CAS, by its class and its \<^verbatim>\<open>args\<close>: the numbers
  (\<^verbatim>\<open>Integer\<close>, \<^verbatim>\<open>Float\<close>, \<^verbatim>\<open>Rational\<close> with \<^verbatim>\<open>p\<close> and \<^verbatim>\<open>q\<close>), \<^verbatim>\<open>Symbol\<close>, \<^verbatim>\<open>Add\<close>,
  \<^verbatim>\<open>Mul\<close>, \<^verbatim>\<open>Pow\<close>, the function classes the module names, and \<open>S_Other\<close> for every
  other class (\<^verbatim>\<open>pi\<close>, \<^verbatim>\<open>E\<close>, \<^verbatim>\<open>Max\<close>, ...). A call of a CAS constructor is represented
  by the expression of that class over the given arguments; the rewriting the CAS does
  inside its constructors is not part of this module.
\<close>

datatype sfun = S_Abs | S_sin | S_cos | S_tan | S_sinh | S_cosh | S_tanh | S_log | S_exp

datatype sym =
    S_Integer int
  | S_Float pyfloat
  | S_Rational int int
  | S_Symbol string
  | S_Add "sym list"
  | S_Mul "sym list"
  | S_Pow sym sym
  | S_Fn sfun "sym list"
  | S_Other string "sym list"

datatype error =
    TypeError | LaTeXExpressionError | UnboundLocalError | IndexError | KeyError
  | AttributeError | OverflowError | ValueError | SympifyError | CASError string

type_synonym varMap = "string \<rightharpoonup> node"

text \<open>
  What the module uses and does not define. The three tables of tags and the defaults
  of a new \<^verbatim>\<open>Operation\<close> belong to the library; \<^verbatim>\<open>"%g" % x\<close> is Python's; \<open>sympify_obj\<close>
  is what the CAS makes of an argument that is not a CAS expression (\<open>None\<close> when it
  refuses it); \<open>call_tag\<close> is the result of calling a tag constant as a function.
\<close>

record lib =
  supportedOperationsN :: "optag list"
  supportedOperations2 :: "optag list"
  supportedOperations1 :: "optag list"
  default_format :: string
  default_exponent :: int
  fmt_g :: "pyfloat \<Rightarrow> string"
  sympify_obj :: "node \<Rightarrow> sym option"
  call_tag :: "optag \<Rightarrow> node list \<Rightarrow> error + node"

subsection \<open>The constructors of the LaTeX tree\<close>

text \<open>
  Modelled from the spec: the constructor functions of the LaTeX tree (\<^verbatim>\<open>add\<close>, \<^verbatim>\<open>sub\<close>,
  \<^verbatim>\<open>mul\<close>, \<^verbatim>\<open>brackets\<close>, \<^verbatim>\<open>absolute\<close>, \<^verbatim>\<open>sin\<close>, ..., \<^verbatim>\<open>ln\<close>) and the operators
  \<^verbatim>\<open>-x\<close>, \<^verbatim>\<open>x / y\<close>, \<^verbatim>\<open>x ** y\<close> of its classes belong to the library
  \<^verbatim>\<open>latexexpr_efficalc\<close>, whose code is not among the sources. The spec describes the
  tree as "variables, n-ary and binary/unary operations such as add, multiply, power,
  trig, log": each constructor builds the operation of its tag over its arguments, with
  the library's default \<^verbatim>\<open>format\<close> and \<^verbatim>\<open>exponent\<close>, and a Python number among the
  operands becomes the variable named by its \<^verbatim>\<open>%g\<close> rendering.
\<close>

definition mk_operation :: "lib \<Rightarrow> optag \<Rightarrow> node list \<Rightarrow> node" where
  "mk_operation L t as = Operation t as (default_format L) (default_exponent L)"

definition number :: "lib \<Rightarrow> real \<Rightarrow> node" where
  "number L v = Variable (fmt_g L (Finite v)) (Some (Finite v))"

definition lx_neg :: "lib \<Rightarrow> node \<Rightarrow> node" where
  "lx_neg L a = mk_operation L Tag_NEG [a]"

definition lx_div :: "lib \<Rightarrow> node \<Rightarrow> node \<Rightarrow> node" where
  "lx_div L a b = mk_operation L Tag_DIV [a, b]"

definition lx_pow :: "lib \<Rightarrow> node \<Rightarrow> node \<Rightarrow> node" where
  "lx_pow L a b = mk_operation L Tag_POW [a, b]"

definition lx_add :: "lib \<Rightarrow> node list \<Rightarrow> node" where
  "lx_add L as = mk_operation L Tag_ADD as"

definition lx_sub :: "lib \<Rightarrow> node list \<Rightarrow> node" where
  "lx_sub L as = mk_operation L Tag_SUB as"

definition lx_mul :: "lib \<Rightarrow> node list \<Rightarrow> node" where
  "lx_mul L as = mk_operation L Tag_MUL as"

definition lx_brackets :: "lib \<Rightarrow> node \<Rightarrow> node" where
  "lx_brackets L a = mk_operation L Tag_RBRACKETS [a]"

text \<open>
  The table of the back conversion that pairs a function class of the CAS with a
  constructor of the LaTeX tree, the constructor given by its tag. The exponential of
  the CAS has no entry.
\<close>

fun lx_function :: "sfun \<Rightarrow> optag option" where
  "lx_function S_Abs = Some Tag_ABS"
| "lx_function S_sin = Some Tag_SIN"
| "lx_function S_cos = Some Tag_COS"
| "lx_function S_tan = Some Tag_TAN"
| "lx_function S_sinh = Some Tag_SINH"
| "lx_function S_cosh = Some Tag_COSH"
| "lx_function S_tanh = Some Tag_TANH"
| "lx_function S_log = Some Tag_LN"
| "lx_function S_exp = None"

section \<open>The forward conversion\<close>

text \<open>
  \<^verbatim>\<open>sympy.log(x, b)\<close> is the quotient of the logarithms, as the CAS documents it.
\<close>

definition sympy_log2 :: "sym \<Rightarrow> sym \<Rightarrow> sym" where
  "sympy_log2 x b = S_Mul [S_Fn S_log [x], S_Pow (S_Fn S_log [b]) (S_Integer (- 1))]"

text \<open>
  \<^verbatim>\<open>int(x)\<close> of a float: truncation towards zero; \<^verbatim>\<open>OverflowError\<close> for an infinity and
  \<^verbatim>\<open>ValueError\<close> for the float that is not a number.
\<close>

fun py_int :: "pyfloat \<Rightarrow> error + int" where
  "py_int (Finite v) = Inr (if 0 \<le> v then \<lfloor>v\<rfloor> else \<lceil>v\<rceil>)"
| "py_int PosInf = Inl OverflowError"
| "py_int NegInf = Inl OverflowError"
| "py_int NaN = Inl ValueError"

text \<open>
  \<^verbatim>\<open>_operation_to_sympy(arg, varMap, substituteFloats)\<close>. The dictionary \<^verbatim>\<open>varMap\<close> is
  one object that every recursive call writes to, so it is threaded through the calls
  in the order Python evaluates them; an exception ends the conversion. \<open>o2s_list\<close>
  is the list comprehension \<^verbatim>\<open>[_o2s(a, varMap, sf) for a in arg.args]\<close>. A tag that
  stands in a table and has no branch leaves \<^verbatim>\<open>sympyOp\<close> unassigned
  (\<^verbatim>\<open>UnboundLocalError\<close>); \<^verbatim>\<open>a[0]\<close> and \<^verbatim>\<open>a[1]\<close> raise \<^verbatim>\<open>IndexError\<close> on a list that
  is too short. In the branch of the root, \<^verbatim>\<open>-a[1]\<close> is the operation \<open>lx_neg L a1\<close>,
  written out. The branch of log10 passes \<^verbatim>\<open>a\<close> itself to \<^verbatim>\<open>sympy.log\<close>.
\<close>

fun operation_to_sympy :: "lib \<Rightarrow> node \<Rightarrow> varMap \<Rightarrow> bool \<Rightarrow> error + (sym \<times> varMap)"
  and o2s_list :: "lib \<Rightarrow> node list \<Rightarrow> varMap \<Rightarrow> bool \<Rightarrow> error + (sym list \<times> varMap)"
where
  "operation_to_sympy L (Variable name val) varMap sf =
     (case val of
        None \<Rightarrow> Inr (S_Symbol name, varMap(name \<mapsto> Variable name val))
      | Some v \<Rightarrow>
          if name = fmt_g L v then
            (case py_int v of
               Inl e \<Rightarrow> Inl e
             | Inr i \<Rightarrow>
                 if v = Finite (of_int i) then Inr (S_Integer i, varMap)
                 else Inr (S_Float v, varMap))
          else if \<not> sf then Inr (S_Symbol name, varMap(name \<mapsto> Variable name val))
          else Inr (S_Float v, varMap))"
| "operation_to_sympy L (Expression name operation) varMap sf =
     operation_to_sympy L operation varMap sf"
| "operation_to_sympy L (Foreign cls) varMap sf = Inl TypeError"
| "operation_to_sympy L (Operation t as fm ex) varMap sf =
     (if t \<in> set (supportedOperationsN L) then
        (case o2s_list L as varMap sf of
           Inl e \<Rightarrow> Inl e
         | Inr (args, vm) \<Rightarrow>
             if t = Tag_ADD then Inr (S_Add args, vm)
             else if t = Tag_MUL then Inr (S_Mul args, vm)
             else Inl UnboundLocalError)
      else if t \<in> set (supportedOperations2 L) then
        (if t \<in> {Tag_SUB, Tag_DIV, Tag_DIV2, Tag_POW, Tag_ROOT, Tag_LOG} then
           (case as of
              [] \<Rightarrow> Inl IndexError
            | a0 # rest \<Rightarrow>
                (case operation_to_sympy L a0 varMap sf of
                   Inl e \<Rightarrow> Inl e
                 | Inr (s0, vm0) \<Rightarrow>
                     (case rest of
                        [] \<Rightarrow> Inl IndexError
                      | a1 # _ \<Rightarrow>
                          (case operation_to_sympy L
                                  (if t = Tag_ROOT then Operation Tag_NEG [a1] (default_format L) (default_exponent L) else a1)
                                  vm0 sf of
                             Inl e \<Rightarrow> Inl e
                           | Inr (s1, vm1) \<Rightarrow>
                               if t = Tag_SUB then Inr (S_Add [s0, S_Mul [S_Integer (- 1), s1]], vm1)
                               else if t = Tag_DIV \<or> t = Tag_DIV2 then
                                 Inr (S_Mul [s0, S_Pow s1 (S_Integer (- 1))], vm1)
                               else if t = Tag_POW then Inr (S_Pow s0 s1, vm1)
                               else if t = Tag_ROOT then Inr (S_Pow s0 s1, vm1)
                               else Inr (sympy_log2 s0 s1, vm1)))))
         else Inl UnboundLocalError)
      else if t \<in> set (supportedOperations1 L) then
        (case as of
           [] \<Rightarrow> Inl IndexError
         | a # _ \<Rightarrow>
             if t = Tag_LOG10 then
               (case sympify_obj L a of
                  None \<Rightarrow> Inl SympifyError
                | Some s \<Rightarrow> Inr (sympy_log2 s (S_Integer 10), varMap))
             else if t \<in> {Tag_NEG, Tag_ABS, Tag_SQR, Tag_SQRT, Tag_SIN, Tag_COS, Tag_TAN,
                          Tag_SINH, Tag_COSH, Tag_TANH, Tag_EXP, Tag_LN} then
               (case operation_to_sympy L a varMap sf of
                  Inl e \<Rightarrow> Inl e
                | Inr (s, vm) \<Rightarrow>
                    if t = Tag_NEG then Inr (S_Mul [s, S_Integer (- 1)], vm)
                    else if t = Tag_ABS then Inr (S_Fn S_Abs [s], vm)
                    else if t = Tag_SQR then Inr (S_Pow s (S_Integer 2), vm)
                    else if t = Tag_SQRT then Inr (S_Pow s (S_Integer (- 2)), vm)
                    else if t = Tag_SIN then Inr (S_Fn S_sin [s], vm)
                    else if t = Tag_COS then Inr (S_Fn S_cos [s], vm)
                    else if t = Tag_TAN then Inr (S_Fn S_tan [s], vm)
                    else if t = Tag_SINH then Inr (S_Fn S_sinh [s], vm)
                    else if t = Tag_COSH then Inr (S_Fn S_sinh [s], vm)
                    else if t = Tag_TANH then Inr (S_Fn S_sinh [s], vm)
                    else if t = Tag_EXP then Inr (S_Fn S_exp [s], vm)
                    else Inr (S_Fn S_log [s], vm))
             else if t \<in> {Tag_NONE, Tag_RBRACKETS, Tag_SBRACKETS, Tag_CBRACKETS,
                          Tag_ABRACKETS, Tag_POS} then
               operation_to_sympy L a varMap sf
             else Inl UnboundLocalError)
      else Inl LaTeXExpressionError)"
| "o2s_list L [] varMap sf = Inr ([], varMap)"
| "o2s_list L (a # as) varMap sf =
     (case operation_to_sympy L a varMap sf of
        Inl e \<Rightarrow> Inl e
      | Inr (s, vm) \<Rightarrow>
          (case o2s_list L as vm sf of
             Inl e \<Rightarrow> Inl e
           | Inr (ss, vm') \<Rightarrow> Inr (s # ss, vm')))"


section \<open>The back conversion\<close>

text \<open>Python's \<^verbatim>\<open>str\<close> of an integer.\<close>

fun str_nat :: "nat \<Rightarrow> string" where
  "str_nat n =
     (if n < 10 then [''0123456789'' ! n]
      else str_nat (n div 10) @ [''0123456789'' ! (n mod 10)])"

declare str_nat.simps [simp del]

definition py_str :: "int \<Rightarrow> string" where
  "py_str i = (if i < 0 then CHR ''-'' # str_nat (nat (- i)) else str_nat (nat i))"

text \<open>
  The tag that both loops of the back conversion read from an argument:
  \<^verbatim>\<open>a.type if isinstance(a, Operation) else (a.operation.type if isinstance(a, Expression)
  else None)\<close>. Only an \<^verbatim>\<open>Operation\<close> has the attribute \<^verbatim>\<open>type\<close>.
\<close>

fun type_or_none :: "node \<Rightarrow> error + optag option" where
  "type_or_none (Operation t as fm ex) = Inr (Some t)"
| "type_or_none (Expression name (Operation t as fm ex)) = Inr (Some t)"
| "type_or_none (Expression name operation) = Inl AttributeError"
| "type_or_none a = Inr None"

text \<open>
  The loop \<^verbatim>\<open>for i, a in enumerate(args): ... args[i] = brackets(a)\<close> of the \<^verbatim>\<open>Mul\<close>
  case.
\<close>

fun bracket_sums :: "lib \<Rightarrow> node list \<Rightarrow> error + node list" where
  "bracket_sums L [] = Inr []"
| "bracket_sums L (a # as) =
     (case type_or_none a of
        Inl e \<Rightarrow> Inl e
      | Inr t \<Rightarrow>
          (case bracket_sums L as of
             Inl e \<Rightarrow> Inl e
           | Inr bs \<Rightarrow>
               Inr ((if t = Some Tag_ADD \<or> t = Some Tag_SUB then lx_brackets L a else a) # bs)))"

definition is_Variable_named :: "node \<Rightarrow> string \<Rightarrow> bool" where
  "is_Variable_named a n = (case a of Variable name val \<Rightarrow> name = n | _ \<Rightarrow> False)"

text \<open>
  The cases \<^verbatim>\<open>Add\<close>, \<^verbatim>\<open>Mul\<close> and \<^verbatim>\<open>Pow\<close> of \<^verbatim>\<open>_sympy2operation\<close> on the converted
  arguments of a node. In the \<^verbatim>\<open>Mul\<close> case the \<^verbatim>\<open>elif\<close> that looks for a division
  repeats the condition \<^verbatim>\<open>len(args) == 2\<close> of its \<^verbatim>\<open>if\<close> and is never entered. In the
  \<^verbatim>\<open>Pow\<close> case the exponent named \<^verbatim>\<open>0.5\<close> calls the tag \<^verbatim>\<open>_SQRT\<close> itself on the
  exponent.
\<close>

definition s2o_Add :: "lib \<Rightarrow> node list \<Rightarrow> error + node" where
  "s2o_Add L args =
     (case args of
        [a0, Operation t as fm ex] \<Rightarrow>
          if t = Tag_NEG then
            (case as of
               [] \<Rightarrow> Inl IndexError
             | x # _ \<Rightarrow> Inr (lx_sub L [a0, x]))
          else Inr (lx_add L args)
      | _ \<Rightarrow> Inr (lx_add L args))"

definition s2o_Mul :: "lib \<Rightarrow> node list \<Rightarrow> error + node" where
  "s2o_Mul L args =
     (if length args = 2 \<and> is_Variable_named (args ! 0) ''-1'' then Inr (lx_neg L (args ! 1))
      else if length args = 2 \<and> is_Variable_named (args ! 1) ''-1'' then Inr (lx_neg L (args ! 0))
      else
        (case bracket_sums L args of
           Inl e \<Rightarrow> Inl e
         | Inr bs \<Rightarrow> Inr (lx_mul L bs)))"

definition s2o_Pow :: "lib \<Rightarrow> node \<Rightarrow> node \<Rightarrow> error + node" where
  "s2o_Pow L a0 a1 =
     (if is_Variable_named a1 ''-1'' then Inr (lx_div L (number L 1) a0)
      else if is_Variable_named a1 ''2'' then Inr (lx_pow L a0 (number L 2))
      else if is_Variable_named a1 ''0.5'' then call_tag L Tag_SQRT [a1]
      else
        (case type_or_none a0 of
           Inl e \<Rightarrow> Inl e
         | Inr t \<Rightarrow>
             Inr (lx_pow L
                    (if t = Some Tag_ADD \<or> t = Some Tag_SUB then lx_brackets L a0 else a0) a1)))"

text \<open>
  \<^verbatim>\<open>_sympy2operation(sympyExpr, varMap)\<close>. A number becomes the variable named by its
  \<^verbatim>\<open>%g\<close> rendering (the tests for \<^verbatim>\<open>Exp1\<close> and \<^verbatim>\<open>Pi\<close> stand under the test for a
  float or an integer, which neither is), a symbol is looked up in \<^verbatim>\<open>varMap\<close>; for
  every other expression the arguments are converted first (\<open>s2o_list\<close>), then the
  class decides: \<^verbatim>\<open>Add\<close>, \<^verbatim>\<open>Mul\<close>, \<^verbatim>\<open>Pow\<close>, the table of functions (\<open>lx_function\<close>),
  \<^verbatim>\<open>Rational\<close>, and \<^verbatim>\<open>LaTeXExpressionError\<close> for the rest.
\<close>

fun sympy2operation :: "lib \<Rightarrow> sym \<Rightarrow> varMap \<Rightarrow> error + node"
  and s2o_list :: "lib \<Rightarrow> sym list \<Rightarrow> varMap \<Rightarrow> error + node list"
where
  "sympy2operation L (S_Integer i) varMap = Inr (number L (of_int i))"
| "sympy2operation L (S_Float v) varMap = Inr (Variable (fmt_g L v) (Some v))"
| "sympy2operation L (S_Symbol name) varMap =
     (case varMap name of None \<Rightarrow> Inl KeyError | Some a \<Rightarrow> Inr a)"
| "sympy2operation L (S_Add ss) varMap =
     (case s2o_list L ss varMap of Inl e \<Rightarrow> Inl e | Inr args \<Rightarrow> s2o_Add L args)"
| "sympy2operation L (S_Mul ss) varMap =
     (case s2o_list L ss varMap of Inl e \<Rightarrow> Inl e | Inr args \<Rightarrow> s2o_Mul L args)"
| "sympy2operation L (S_Pow b x) varMap =
     (case sympy2operation L b varMap of
        Inl e \<Rightarrow> Inl e
      | Inr a0 \<Rightarrow>
          (case sympy2operation L x varMap of
             Inl e \<Rightarrow> Inl e
           | Inr a1 \<Rightarrow> s2o_Pow L a0 a1))"
| "sympy2operation L (S_Fn f ss) varMap =
     (case s2o_list L ss varMap of
        Inl e \<Rightarrow> Inl e
      | Inr args \<Rightarrow>
          (case lx_function f of
             None \<Rightarrow> Inl LaTeXExpressionError
           | Some t \<Rightarrow>
               (case args of
                  [] \<Rightarrow> Inl IndexError
                | a # _ \<Rightarrow> Inr (mk_operation L t [a]))))"
| "sympy2operation L (S_Rational p q) varMap =
     (if p > 0 then
        Inr (lx_div L (Variable (py_str p) (Some (Finite (of_int p))))
                      (Variable (py_str q) (Some (Finite (of_int q)))))
      else
        Inr (lx_neg L
               (lx_div L (Variable (py_str (- p)) (Some (Finite (of_int (- p)))))
                         (Variable (py_str q) (Some (Finite (of_int q)))))))"
| "sympy2operation L (S_Other cls ss) varMap =
     (case s2o_list L ss varMap of Inl e \<Rightarrow> Inl e | Inr args \<Rightarrow> Inl LaTeXExpressionError)"
| "s2o_list L [] varMap = Inr []"
| "s2o_list L (s # ss) varMap =
     (case sympy2operation L s varMap of
        Inl e \<Rightarrow> Inl e
      | Inr a \<Rightarrow>
          (case s2o_list L ss varMap of
             Inl e \<Rightarrow> Inl e
           | Inr as \<Rightarrow> Inr (a # as)))"


section \<open>The six functions of the module\<close>

text \<open>
  The external CAS: an entry point, applied to its positional arguments and to the
  keyword arguments \<^verbatim>\<open>**kw\<close> that the module passes through, returns an expression or
  raises.
\<close>

datatype cas_entry =
    Sympy_simplify | Sympy_expand | Sympy_factor | Sympy_collect | Sympy_cancel | Sympy_apart

type_synonym kw = "(string \<times> node) list"

type_synonym cas = "cas_entry \<Rightarrow> sym list \<Rightarrow> kw \<Rightarrow> error + sym"

text \<open>The argument \<^verbatim>\<open>syms\<close> of \<^verbatim>\<open>collect\<close>: one object, or a list of objects.\<close>

datatype syms = Syms_obj node | Syms_list "node list"

text \<open>
  \<^verbatim>\<open>_setOperation(expr, operation)\<close> assigns the field \<^verbatim>\<open>operation\<close>;
  \<^verbatim>\<open>_copyOperation(o1, o2)\<close> reads \<^verbatim>\<open>type\<close>, \<^verbatim>\<open>args\<close>, \<^verbatim>\<open>format\<close> and \<^verbatim>\<open>exponent\<close> of
  \<^verbatim>\<open>o2\<close> and assigns them to \<^verbatim>\<open>o1\<close>. The first read, \<^verbatim>\<open>o2.type\<close>, raises when \<^verbatim>\<open>o2\<close>
  is not an \<^verbatim>\<open>Operation\<close>, before anything is assigned. The module calls
  \<^verbatim>\<open>_setOperation\<close> on expressions and \<^verbatim>\<open>_copyOperation\<close> on operations only; a receiver
  of another kind has none of these fields here and is left as it is.
\<close>

fun setOperation :: "node \<Rightarrow> node \<Rightarrow> node" where
  "setOperation (Expression name old) operation = Expression name operation"
| "setOperation expr operation = expr"

fun copyOperation :: "node \<Rightarrow> node \<Rightarrow> error + node" where
  "copyOperation (Operation t1 as1 fm1 ex1) (Operation t2 as2 fm2 ex2) =
     Inr (Operation t2 as2 fm2 ex2)"
| "copyOperation o1 (Operation t2 as2 fm2 ex2) = Inr o1"
| "copyOperation o1 o2 = Inl AttributeError"

text \<open>
  Each function returns a \<^verbatim>\<open>Variable\<close> as it is; copies an \<^verbatim>\<open>Expression\<close> and calls the
  method of the same name on the copy, which assigns the processed \<^verbatim>\<open>operation\<close> to it;
  converts an \<^verbatim>\<open>Operation\<close>, calls its CAS entry point and converts the result back,
  starting from a new, empty \<^verbatim>\<open>varMap\<close>; and raises \<^verbatim>\<open>TypeError\<close> for anything else.
\<close>

fun simplify :: "lib \<Rightarrow> cas \<Rightarrow> node \<Rightarrow> bool \<Rightarrow> kw \<Rightarrow> error + node" where
  "simplify L cas (Variable name val) sf kw = Inr (Variable name val)"
| "simplify L cas (Expression name operation) sf kw =
     (case simplify L cas operation sf kw of
        Inl e \<Rightarrow> Inl e
      | Inr r \<Rightarrow> Inr (setOperation (Expression name operation) r))"
| "simplify L cas (Operation t as fm ex) sf kw =
     (case operation_to_sympy L (Operation t as fm ex) Map.empty sf of
        Inl e \<Rightarrow> Inl e
      | Inr (s, lVars) \<Rightarrow>
          (case cas Sympy_simplify [s] kw of
             Inl e \<Rightarrow> Inl e
           | Inr s' \<Rightarrow> sympy2operation L s' lVars))"
| "simplify L cas (Foreign cls) sf kw = Inl TypeError"

fun expand :: "lib \<Rightarrow> cas \<Rightarrow> node \<Rightarrow> bool \<Rightarrow> kw \<Rightarrow> error + node" where
  "expand L cas (Variable name val) sf kw = Inr (Variable name val)"
| "expand L cas (Expression name operation) sf kw =
     (case expand L cas operation sf kw of
        Inl e \<Rightarrow> Inl e
      | Inr r \<Rightarrow> Inr (setOperation (Expression name operation) r))"
| "expand L cas (Operation t as fm ex) sf kw =
     (case operation_to_sympy L (Operation t as fm ex) Map.empty sf of
        Inl e \<Rightarrow> Inl e
      | Inr (s, lVars) \<Rightarrow>
          (case cas Sympy_expand [s] kw of
             Inl e \<Rightarrow> Inl e
           | Inr s' \<Rightarrow> sympy2operation L s' lVars))"
| "expand L cas (Foreign cls) sf kw = Inl TypeError"

fun factor :: "lib \<Rightarrow> cas \<Rightarrow> node \<Rightarrow> bool \<Rightarrow> kw \<Rightarrow> error + node" where
  "factor L cas (Variable name val) sf kw = Inr (Variable name val)"
| "factor L cas (Expression name operation) sf kw =
     (case factor L cas operation sf kw of
        Inl e \<Rightarrow> Inl e
      | Inr r \<Rightarrow> Inr (setOperation (Expression name operation) r))"
| "factor L cas (Operation t as fm ex) sf kw =
     (case operation_to_sympy L (Operation t as fm ex) Map.empty sf of
        Inl e \<Rightarrow> Inl e
      | Inr (s, lVars) \<Rightarrow>
          (case cas Sympy_factor [s] kw of
             Inl e \<Rightarrow> Inl e
           | Inr s' \<Rightarrow> sympy2operation L s' lVars))"
| "factor L cas (Foreign cls) sf kw = Inl TypeError"

text \<open>
  \<^verbatim>\<open>collect\<close> checks \<^verbatim>\<open>syms\<close> after the forward conversion. When \<^verbatim>\<open>syms\<close> is not a
  \<^verbatim>\<open>Variable\<close> the check evaluates \<^verbatim>\<open>isinstance(...)\<close> on one argument, a generator, which
  raises \<^verbatim>\<open>TypeError\<close> (as does building the generator over an object that cannot be
  iterated).
\<close>

fun collect :: "lib \<Rightarrow> cas \<Rightarrow> node \<Rightarrow> syms \<Rightarrow> bool \<Rightarrow> kw \<Rightarrow> error + node" where
  "collect L cas (Variable name val) syms sf kw = Inr (Variable name val)"
| "collect L cas (Expression name operation) syms sf kw =
     (case collect L cas operation syms sf kw of
        Inl e \<Rightarrow> Inl e
      | Inr r \<Rightarrow> Inr (setOperation (Expression name operation) r))"
| "collect L cas (Operation t as fm ex) syms sf kw =
     (case operation_to_sympy L (Operation t as fm ex) Map.empty sf of
        Inl e \<Rightarrow> Inl e
      | Inr (s, lVars) \<Rightarrow>
          (case syms of
             Syms_obj (Variable name val) \<Rightarrow>
               (case cas Sympy_collect [s, S_Symbol name] kw of
                  Inl e \<Rightarrow> Inl e
                | Inr s' \<Rightarrow> sympy2operation L s' lVars)
           | _ \<Rightarrow> Inl TypeError))"
| "collect L cas (Foreign cls) syms sf kw = Inl TypeError"

fun cancel :: "lib \<Rightarrow> cas \<Rightarrow> node \<Rightarrow> bool \<Rightarrow> kw \<Rightarrow> error + node" where
  "cancel L cas (Variable name val) sf kw = Inr (Variable name val)"
| "cancel L cas (Expression name operation) sf kw =
     (case cancel L cas operation sf kw of
        Inl e \<Rightarrow> Inl e
      | Inr r \<Rightarrow> Inr (setOperation (Expression name operation) r))"
| "cancel L cas (Operation t as fm ex) sf kw =
     (case operation_to_sympy L (Operation t as fm ex) Map.empty sf of
        Inl e \<Rightarrow> Inl e
      | Inr (s, lVars) \<Rightarrow>
          (case cas Sympy_cancel [s] kw of
             Inl e \<Rightarrow> Inl e
           | Inr s' \<Rightarrow> sympy2operation L s' lVars))"
| "cancel L cas (Foreign cls) sf kw = Inl TypeError"

fun apart :: "lib \<Rightarrow> cas \<Rightarrow> node \<Rightarrow> bool \<Rightarrow> kw \<Rightarrow> error + node" where
  "apart L cas (Variable name val) sf kw = Inr (Variable name val)"
| "apart L cas (Expression name operation) sf kw =
     (case apart L cas operation sf kw of
        Inl e \<Rightarrow> Inl e
      | Inr r \<Rightarrow> Inr (setOperation (Expression name operation) r))"
| "apart L cas (Operation t as fm ex) sf kw =
     (case operation_to_sympy L (Operation t as fm ex) Map.empty sf of
        Inl e \<Rightarrow> Inl e
      | Inr (s, lVars) \<Rightarrow>
          (case cas Sympy_apart [s] kw of
             Inl e \<Rightarrow> Inl e
           | Inr s' \<Rightarrow> sympy2operation L s' lVars))"
| "apart L cas (Foreign cls) sf kw = Inl TypeError"

text \<open>A call of one of the six functions, with its arguments other than \<^verbatim>\<open>arg\<close>.\<close>

datatype call =
    Simplify bool kw | Expand bool kw | Factor bool kw | Collect syms bool kw
  | Cancel bool kw | Apart bool kw

fun run :: "lib \<Rightarrow> cas \<Rightarrow> call \<Rightarrow> node \<Rightarrow> error + node" where
  "run L cas (Simplify sf kw) arg = simplify L cas arg sf kw"
| "run L cas (Expand sf kw) arg = expand L cas arg sf kw"
| "run L cas (Factor sf kw) arg = factor L cas arg sf kw"
| "run L cas (Collect syms sf kw) arg = collect L cas arg syms sf kw"
| "run L cas (Cancel sf kw) arg = cancel L cas arg sf kw"
| "run L cas (Apart sf kw) arg = apart L cas arg sf kw"


section \<open>Objects with identity: the method forms and the calls\<close>

text \<open>
  The module changes an object in two places only, \<^verbatim>\<open>_setOperation\<close> and
  \<^verbatim>\<open>_copyOperation\<close>, and both change the receiver of a method. To say which object a
  call returns and which object it changes, the objects a caller holds are kept in a
  store, addressed by reference; \<^verbatim>\<open>copy.copy\<close> and every newly built result take the
  next free reference. What lies below a stored object is held by value: neither
  conversion assigns to a field of an object it is given (\<^verbatim>\<open>varMap[arg.name] = arg\<close>
  writes to the dictionary of the call, \<^verbatim>\<open>args[1] = ...\<close> and \<^verbatim>\<open>args[i] = ...\<close> to the
  list that \<^verbatim>\<open>_sympy2operation\<close> has just built), so the copy of an expression, which
  shares the \<^verbatim>\<open>operation\<close> of the original, cannot change it.

  A method \<^verbatim>\<open>o.f(...)\<close>, for \<^verbatim>\<open>f\<close> one of the six functions:
  \<^verbatim>\<open>Expression.f = lambda self, ...: _setOperation(self, f(self.operation, ...))\<close> and
  \<^verbatim>\<open>Operation.f = lambda self, ...: _copyOperation(self, f(self, ...))\<close>. No other class
  has the method.
\<close>

type_synonym ref = nat

type_synonym store = "node list"

definition method_on :: "(node \<Rightarrow> error + node) \<Rightarrow> store \<Rightarrow> ref \<Rightarrow> error + store" where
  "method_on f h self =
     (case h ! self of
        Expression name operation \<Rightarrow>
          (case f operation of
             Inl e \<Rightarrow> Inl e
           | Inr r \<Rightarrow> Inr (h[self := setOperation (h ! self) r]))
      | Operation t as fm ex \<Rightarrow>
          (case f (h ! self) of
             Inl e \<Rightarrow> Inl e
           | Inr o2 \<Rightarrow>
               (case copyOperation (h ! self) o2 of
                  Inl e \<Rightarrow> Inl e
                | Inr o1 \<Rightarrow> Inr (h[self := o1])))
      | _ \<Rightarrow> Inl AttributeError)"

text \<open>
  A call \<^verbatim>\<open>f(arg)\<close> of one of the six functions on a stored object: the branches of the
  function, with \<^verbatim>\<open>ret = copy.copy(arg)\<close> a new object with the fields of \<^verbatim>\<open>arg\<close>, and
  \<^verbatim>\<open>ret.f(...)\<close> the method on it.
\<close>

definition function_on :: "(node \<Rightarrow> error + node) \<Rightarrow> store \<Rightarrow> ref \<Rightarrow> error + (ref \<times> store)" where
  "function_on f h arg =
     (case h ! arg of
        Variable name val \<Rightarrow> Inr (arg, h)
      | Expression name operation \<Rightarrow>
          (let ret = length h; h1 = h @ [h ! arg] in
           case method_on f h1 ret of
             Inl e \<Rightarrow> Inl e
           | Inr h2 \<Rightarrow> Inr (ret, h2))
      | Operation t as fm ex \<Rightarrow>
          (case f (h ! arg) of
             Inl e \<Rightarrow> Inl e
           | Inr r \<Rightarrow> Inr (length h, h @ [r]))
      | Foreign cls \<Rightarrow> Inl TypeError)"

section \<open>A library and a CAS to evaluate with\<close>

text \<open>
  Modelled from the spec: the tables of tags belong to the library
  \<^verbatim>\<open>latexexpr_efficalc\<close>, whose code is not among the sources. The n-ary tags are add
  and multiply, and max and min, which the module names in its n-ary branch;
  the binary ones subtract, the two divisions, power, root and log; the unary ones the
  rest. \<open>fmt_g_integral\<close> is \<^verbatim>\<open>"%g" % v\<close> on the integral values below a million in
  magnitude, where \<^verbatim>\<open>%g\<close> prints the digits of the integer, and on the floats that
  denote no real; no other value is formatted in what follows. The CAS takes a variable with a value for its float and has no
  conversion for any other object of the LaTeX tree; a tag is a constant and calling
  it raises \<^verbatim>\<open>TypeError\<close>.
\<close>

fun fmt_g_integral :: "pyfloat \<Rightarrow> string" where
  "fmt_g_integral (Finite v) = (if v = of_int \<lfloor>v\<rfloor> then py_str \<lfloor>v\<rfloor> else ''%g'')"
| "fmt_g_integral PosInf = ''inf''"
| "fmt_g_integral NegInf = ''-inf''"
| "fmt_g_integral NaN = ''nan''"

definition example_lib :: lib where
  "example_lib =
     \<lparr> supportedOperationsN = [Tag_ADD, Tag_MUL, Tag_MAX, Tag_MIN],
       supportedOperations2 = [Tag_SUB, Tag_DIV, Tag_DIV2, Tag_POW, Tag_ROOT, Tag_LOG],
       supportedOperations1 =
         [Tag_NONE, Tag_NEG, Tag_POS, Tag_ABS, Tag_SQR, Tag_SQRT, Tag_SIN, Tag_COS, Tag_TAN,
          Tag_SINH, Tag_COSH, Tag_TANH, Tag_EXP, Tag_LN, Tag_LOG10,
          Tag_RBRACKETS, Tag_SBRACKETS, Tag_CBRACKETS, Tag_ABRACKETS],
       default_format = ''%.4g'',
       default_exponent = 0,
       fmt_g = fmt_g_integral,
       sympify_obj = (\<lambda>a. case a of Variable name (Some v) \<Rightarrow> Some (S_Float v) | _ \<Rightarrow> None),
       call_tag = (\<lambda>t as. Inl TypeError) \<rparr>"

text \<open>A CAS whose every entry point returns its first argument as it is.\<close>

definition cas_unchanged :: cas where
  "cas_unchanged entry args kw =
     (case args of [] \<Rightarrow> Inl (CASError ''no argument'') | s # _ \<Rightarrow> Inr s)"

definition cas_refuses :: "sym list \<Rightarrow> kw \<Rightarrow> error + sym" where
  "cas_refuses args kw = Inl (CASError ''refused'')"

section \<open>The notions of the properties\<close>


text \<open>The round trip: the back conversion of the forward conversion, with its \<^verbatim>\<open>varMap\<close>.\<close>

definition round_trip :: "lib \<Rightarrow> node \<Rightarrow> bool \<Rightarrow> error + node" where
  "round_trip L arg sf =
     (case operation_to_sympy L arg Map.empty sf of
        Inl e \<Rightarrow> Inl e
      | Inr (s, varMap) \<Rightarrow> sympy2operation L s varMap)"

text \<open>
  The tags that the forward conversion converts by converting the arguments, by arity,
  and the trees built from them: every operation has one of these tags and the
  arguments its branch reads, and every variable is symbolic or has a value that
  denotes a real. \<open>tables_ok\<close> says that the library lists each of these
  tags in the table of its arity and in no table the module looks up before it. The tag
  of log10 is not among them: its branch does not convert the argument.
\<close>

definition nary_tags :: "optag list" where
  "nary_tags = [Tag_ADD, Tag_MUL]"

definition binary_tags :: "optag list" where
  "binary_tags = [Tag_SUB, Tag_DIV, Tag_DIV2, Tag_POW, Tag_ROOT, Tag_LOG]"

definition unary_tags :: "optag list" where
  "unary_tags =
     [Tag_NEG, Tag_ABS, Tag_SQR, Tag_SQRT, Tag_SIN, Tag_COS, Tag_TAN, Tag_SINH, Tag_COSH,
      Tag_TANH, Tag_EXP, Tag_LN, Tag_NONE, Tag_RBRACKETS, Tag_SBRACKETS, Tag_CBRACKETS,
      Tag_ABRACKETS, Tag_POS]"

definition tables_ok :: "lib \<Rightarrow> bool" where
  "tables_ok L =
     (list_all (\<lambda>t. t \<in> set (supportedOperationsN L)) nary_tags
      \<and> list_all (\<lambda>t. t \<notin> set (supportedOperationsN L) \<and> t \<in> set (supportedOperations2 L))
            binary_tags
      \<and> list_all (\<lambda>t. t \<notin> set (supportedOperationsN L) \<and> t \<notin> set (supportedOperations2 L)
                       \<and> t \<in> set (supportedOperations1 L)) unary_tags)"

fun converts :: "node \<Rightarrow> bool" where
  "converts (Variable name val) = (val \<notin> {Some PosInf, Some NegInf, Some NaN})"
| "converts (Expression name operation) = converts operation"
| "converts (Foreign cls) = False"
| "converts (Operation t as fm ex) =
     (list_all converts as
      \<and> (t \<in> set nary_tags \<or> t \<in> set binary_tags \<and> 2 \<le> length as
           \<or> t \<in> set unary_tags \<and> 1 \<le> length as))"

text \<open>\<^verbatim>\<open>isinstance(syms, latexexpr_efficalc.Variable)\<close>.\<close>

definition syms_is_Variable :: "syms \<Rightarrow> bool" where
  "syms_is_Variable syms = (case syms of Syms_obj (Variable name val) \<Rightarrow> True | _ \<Rightarrow> False)"

text \<open>
  The entry point of the CAS that each of the six functions names, and what it means
  that a call invokes an entry point: the result of the call, on some argument, changes
  when that entry point is replaced by another function and all others are kept.
\<close>

fun entry_point :: "call \<Rightarrow> cas_entry" where
  "entry_point (Simplify sf kw) = Sympy_simplify"
| "entry_point (Expand sf kw) = Sympy_expand"
| "entry_point (Factor sf kw) = Sympy_factor"
| "entry_point (Collect syms sf kw) = Sympy_collect"
| "entry_point (Cancel sf kw) = Sympy_cancel"
| "entry_point (Apart sf kw) = Sympy_apart"

definition invokes :: "call \<Rightarrow> cas_entry \<Rightarrow> bool" where
  "invokes c e = (\<exists>L cas f arg. run L (cas(e := f)) c arg \<noteq> run L cas c arg)"

section \<open>Evaluating the conversions\<close>

text \<open>
  The equation of the \<^verbatim>\<open>Operation\<close> branch of the forward conversion is large: it is
  unfolded by name, where a proof follows the branch.
\<close>

lemmas o2s_Operation = operation_to_sympy.simps(4)

declare operation_to_sympy.simps(4) [simp del]


lemma run_Foreign: "run L cas c (Foreign cls) = Inl TypeError"
  by (cases c) simp_all


text \<open>
  Two evaluations used below, with the library and the CAS of the examples: a bracketed
  symbol comes back as the symbol's variable, a sum of two symbols as their sum.
\<close>

lemma run_example_POS:
  "run example_lib cas_unchanged (Simplify sf kw) (Operation Tag_POS [Variable ''x'' None] fm ex)
     = Inr (Variable ''x'' None)"
  by (simp add: o2s_Operation example_lib_def cas_unchanged_def)


section \<open>The functions on an operation are pass-through calls\<close>


section \<open>The forward conversion of cosh, tanh, square root and root\<close>

text \<open>
  C2. The forward conversion does not map cosh to the hyperbolic cosine of the CAS, nor
  tanh to its hyperbolic tangent, nor the square root to the power 1/2, nor the n-th
  root to the power 1/n. Whatever the argument converts to, cosh and tanh become the
  hyperbolic sine of it, the square root becomes its power -2, and the root of \<open>a\<close> with
  index \<open>n\<close> becomes \<open>a\<close> to the power of the conversion of \<open>-n\<close>. The tables of the
  library are only asked to hold each tag in the table of its arity.
\<close>

theorem forward_conversion_slips:
  "(Tag_COSH \<notin> set (supportedOperationsN L) \<and> Tag_COSH \<notin> set (supportedOperations2 L)
      \<and> Tag_COSH \<in> set (supportedOperations1 L) \<longrightarrow>
    operation_to_sympy L (Operation Tag_COSH (a # rest) fm ex) varMap sf =
      (case operation_to_sympy L a varMap sf of
         Inl e \<Rightarrow> Inl e
       | Inr (s, vm) \<Rightarrow> Inr (S_Fn S_sinh [s], vm)))
   \<and> (Tag_TANH \<notin> set (supportedOperationsN L) \<and> Tag_TANH \<notin> set (supportedOperations2 L)
      \<and> Tag_TANH \<in> set (supportedOperations1 L) \<longrightarrow>
    operation_to_sympy L (Operation Tag_TANH (a # rest) fm ex) varMap sf =
      (case operation_to_sympy L a varMap sf of
         Inl e \<Rightarrow> Inl e
       | Inr (s, vm) \<Rightarrow> Inr (S_Fn S_sinh [s], vm)))
   \<and> (Tag_SQRT \<notin> set (supportedOperationsN L) \<and> Tag_SQRT \<notin> set (supportedOperations2 L)
      \<and> Tag_SQRT \<in> set (supportedOperations1 L) \<longrightarrow>
    operation_to_sympy L (Operation Tag_SQRT (a # rest) fm ex) varMap sf =
      (case operation_to_sympy L a varMap sf of
         Inl e \<Rightarrow> Inl e
       | Inr (s, vm) \<Rightarrow> Inr (S_Pow s (S_Integer (- 2)), vm)))
   \<and> (Tag_ROOT \<notin> set (supportedOperationsN L) \<and> Tag_ROOT \<in> set (supportedOperations2 L) \<longrightarrow>
    operation_to_sympy L (Operation Tag_ROOT (a # n # rest) fm ex) varMap sf =
      (case operation_to_sympy L a varMap sf of
         Inl e \<Rightarrow> Inl e
       | Inr (s, vm) \<Rightarrow>
           (case operation_to_sympy L (lx_neg L n) vm sf of
              Inl e \<Rightarrow> Inl e
            | Inr (s', vm') \<Rightarrow> Inr (S_Pow s s', vm'))))"
  by (simp add: o2s_Operation lx_neg_def mk_operation_def split: sum.splits)

theorem forward_conversion_slips_witness:
  "operation_to_sympy example_lib (Operation Tag_COSH [Variable ''x'' None] ''%.4g'' 0) Map.empty False
     = Inr (S_Fn S_sinh [S_Symbol ''x''], [''x'' \<mapsto> Variable ''x'' None])
   \<and> operation_to_sympy example_lib (Operation Tag_TANH [Variable ''x'' None] ''%.4g'' 0) Map.empty False
     = Inr (S_Fn S_sinh [S_Symbol ''x''], [''x'' \<mapsto> Variable ''x'' None])
   \<and> operation_to_sympy example_lib (Operation Tag_SQRT [Variable ''x'' None] ''%.4g'' 0) Map.empty False
     = Inr (S_Pow (S_Symbol ''x'') (S_Integer (- 2)), [''x'' \<mapsto> Variable ''x'' None])
   \<and> operation_to_sympy example_lib
        (Operation Tag_ROOT [Variable ''x'' None, Variable ''n'' None] ''%.4g'' 0) Map.empty False
     = Inr (S_Pow (S_Symbol ''x'') (S_Mul [S_Symbol ''n'', S_Integer (- 1)]),
            [''x'' \<mapsto> Variable ''x'' None, ''n'' \<mapsto> Variable ''n'' None])"
  using forward_conversion_slips [where L = example_lib and a = "Variable ''x'' None"
          and rest = "[]" and fm = "''%.4g''" and ex = 0 and varMap = Map.empty and sf = False
          and n = "Variable ''n'' None"]
  by (simp add: example_lib_def lx_neg_def mk_operation_def o2s_Operation)

section \<open>The round trip\<close>

text \<open>
  C3. The round trip of the cosh of a symbol, and of its tanh, succeeds and returns the
  sinh of the symbol, which is another function; the round trip of the exponential of
  a symbol raises, since the back conversion has no case for the exponential of the
  CAS. So the round trip neither always succeeds nor always returns an equal tree.
\<close>

theorem round_trip_slips:
  "(Tag_COSH \<notin> set (supportedOperationsN L) \<and> Tag_COSH \<notin> set (supportedOperations2 L)
      \<and> Tag_COSH \<in> set (supportedOperations1 L) \<longrightarrow>
    round_trip L (Operation Tag_COSH [Variable x None] fm ex) sf
      = Inr (mk_operation L Tag_SINH [Variable x None]))
   \<and> (Tag_TANH \<notin> set (supportedOperationsN L) \<and> Tag_TANH \<notin> set (supportedOperations2 L)
      \<and> Tag_TANH \<in> set (supportedOperations1 L) \<longrightarrow>
    round_trip L (Operation Tag_TANH [Variable x None] fm ex) sf
      = Inr (mk_operation L Tag_SINH [Variable x None]))
   \<and> (Tag_EXP \<notin> set (supportedOperationsN L) \<and> Tag_EXP \<notin> set (supportedOperations2 L)
      \<and> Tag_EXP \<in> set (supportedOperations1 L) \<longrightarrow>
    round_trip L (Operation Tag_EXP [Variable x None] fm ex) sf = Inl LaTeXExpressionError)"
  by (simp add: round_trip_def o2s_Operation)

theorem round_trip_slips_witness:
  "round_trip example_lib (Operation Tag_COSH [Variable ''x'' None] ''%.4g'' 0) False
      = Inr (Operation Tag_SINH [Variable ''x'' None] ''%.4g'' 0)
   \<and> round_trip example_lib (Operation Tag_TANH [Variable ''x'' None] ''%.4g'' 0) False
      = Inr (Operation Tag_SINH [Variable ''x'' None] ''%.4g'' 0)
   \<and> round_trip example_lib (Operation Tag_EXP [Variable ''x'' None] ''%.4g'' 0) False
      = Inl LaTeXExpressionError"
  using round_trip_slips [where L = example_lib and x = "''x''" and fm = "''%.4g''"
          and ex = 0 and sf = False]
  by (simp add: example_lib_def mk_operation_def)

section \<open>The method forms\<close>






section \<open>The entry points of the CAS\<close>

lemma simplify_other_entry:
  "e \<noteq> Sympy_simplify \<Longrightarrow> simplify L (cas(e := f)) arg sf kw = simplify L cas arg sf kw"
  by (induction arg) (auto split: sum.splits)

lemma expand_other_entry:
  "e \<noteq> Sympy_expand \<Longrightarrow> expand L (cas(e := f)) arg sf kw = expand L cas arg sf kw"
  by (induction arg) (auto split: sum.splits)

lemma factor_other_entry:
  "e \<noteq> Sympy_factor \<Longrightarrow> factor L (cas(e := f)) arg sf kw = factor L cas arg sf kw"
  by (induction arg) (auto split: sum.splits)

lemma collect_other_entry:
  "e \<noteq> Sympy_collect \<Longrightarrow> collect L (cas(e := f)) arg syms sf kw = collect L cas arg syms sf kw"
  by (induction arg) (auto split: sum.splits syms.splits node.splits)

lemma cancel_other_entry:
  "e \<noteq> Sympy_cancel \<Longrightarrow> cancel L (cas(e := f)) arg sf kw = cancel L cas arg sf kw"
  by (induction arg) (auto split: sum.splits)

lemma apart_other_entry:
  "e \<noteq> Sympy_apart \<Longrightarrow> apart L (cas(e := f)) arg sf kw = apart L cas arg sf kw"
  by (induction arg) (auto split: sum.splits)

text \<open>A call invokes no entry point but the one its function names.\<close>

lemma invokes_only_own: "invokes c e \<Longrightarrow> e = entry_point c"
proof (rule ccontr)
  assume inv: "invokes c e" and other: "e \<noteq> entry_point c"
  from other have "run L (cas(e := f)) c arg = run L cas c arg" for L cas f arg
    by (cases c)
      (simp_all add: simplify_other_entry expand_other_entry factor_other_entry
         collect_other_entry cancel_other_entry apart_other_entry)
  with inv show False by (simp add: invokes_def)
qed

text \<open>Each of the six entry points is invoked: on a bracketed symbol its result shows.\<close>

lemma invokes_own:
  "invokes (Simplify False []) Sympy_simplify"
  "invokes (Expand False []) Sympy_expand"
  "invokes (Factor False []) Sympy_factor"
  "invokes (Collect (Syms_obj (Variable ''x'' None)) False []) Sympy_collect"
  "invokes (Cancel False []) Sympy_cancel"
  "invokes (Apart False []) Sympy_apart"
  unfolding invokes_def
  by (rule exI [of _ example_lib], rule exI [of _ cas_unchanged], rule exI [of _ cas_refuses],
      rule exI [of _ "Operation Tag_POS [Variable ''x'' None] ''%.4g'' 0"],
      simp add: o2s_Operation example_lib_def cas_unchanged_def cas_refuses_def)+

lemma UNIV_cas_entry:
  "(UNIV :: cas_entry set) =
     {Sympy_simplify, Sympy_expand, Sympy_factor, Sympy_collect, Sympy_cancel, Sympy_apart}"
proof -
  have "e \<in> {Sympy_simplify, Sympy_expand, Sympy_factor, Sympy_collect, Sympy_cancel, Sympy_apart}"
    for e by (cases e) simp_all
  then show ?thesis by blast
qed

lemma invoked_entries: "{e. \<exists>c. invokes c e} = UNIV"
proof -
  have "\<exists>c. invokes c e" for e
    by (cases e) (blast intro: invokes_own)+
  then show ?thesis by simp
qed

text \<open>
  C5, as amended. The entry points of the CAS that the six functions invoke are six:
  \<^verbatim>\<open>sympy.simplify\<close>, \<^verbatim>\<open>sympy.expand\<close>, \<^verbatim>\<open>sympy.factor\<close>, \<^verbatim>\<open>sympy.collect\<close>, \<^verbatim>\<open>sympy.cancel\<close>
  and \<^verbatim>\<open>sympy.apart\<close>, one for each function.
\<close>

theorem six_entry_points:
  "card {e. \<exists>c. invokes c e} = 6 \<and> {e. \<exists>c. invokes c e} = range entry_point"
proof -
  have "range entry_point = UNIV"
  proof -
    have "e \<in> range entry_point" for e
    proof (cases e)
      case Sympy_simplify
      have "entry_point (Simplify False []) = Sympy_simplify" by simp
      with Sympy_simplify show ?thesis by (metis rangeI)
    next
      case Sympy_expand
      have "entry_point (Expand False []) = Sympy_expand" by simp
      with Sympy_expand show ?thesis by (metis rangeI)
    next
      case Sympy_factor
      have "entry_point (Factor False []) = Sympy_factor" by simp
      with Sympy_factor show ?thesis by (metis rangeI)
    next
      case Sympy_collect
      have "entry_point (Collect (Syms_list []) False []) = Sympy_collect" by simp
      with Sympy_collect show ?thesis by (metis rangeI)
    next
      case Sympy_cancel
      have "entry_point (Cancel False []) = Sympy_cancel" by simp
      with Sympy_cancel show ?thesis by (metis rangeI)
    next
      case Sympy_apart
      have "entry_point (Apart False []) = Sympy_apart" by simp
      with Sympy_apart show ?thesis by (metis rangeI)
    qed
    then show ?thesis by blast
  qed
  then show ?thesis by (simp add: invoked_entries UNIV_cas_entry)
qed

text \<open>The number of entry points invoked is not five.\<close>

theorem five_entry_points_counterexample: "card {e. \<exists>c. invokes c e} \<noteq> 5"
  by (simp add: invoked_entries UNIV_cas_entry)

section \<open>Where the forward conversion returns and where it raises\<close>

text \<open>
  On a tree built from the other tags the forward conversion returns a result, whatever
  \<^verbatim>\<open>varMap\<close> it starts from: no branch raises.
\<close>

lemma o2s_list_total:
  "(\<And>a vm. a \<in> set as \<Longrightarrow> \<exists>s vm'. operation_to_sympy L a vm sf = Inr (s, vm')) \<Longrightarrow>
   \<exists>ss vm'. o2s_list L as vm sf = Inr (ss, vm')"
proof (induction as arbitrary: vm)
  case Nil
  show ?case by simp
next
  case (Cons a as)
  from Cons.prems [of a vm] obtain s vm1 where a: "operation_to_sympy L a vm sf = Inr (s, vm1)"
    by auto
  from Cons.IH [of vm1] Cons.prems obtain ss vm2 where "o2s_list L as vm1 sf = Inr (ss, vm2)"
    by auto
  with a show ?case by simp
qed

lemma forward_total:
  assumes ok: "tables_ok L"
  shows "converts a \<Longrightarrow> \<exists>s vm'. operation_to_sympy L a vm sf = Inr (s, vm')"
proof (induction a arbitrary: vm)
  case (Variable name val)
  show ?case
  proof (cases val)
    case None
    then show ?thesis by simp
  next
    case (Some v)
    with Variable obtain r where "v = Finite r" by (cases v) auto
    with Some show ?thesis by simp
  qed
next
  case (Expression name operation)
  then show ?case by simp
next
  case (Foreign cls)
  then show ?case by simp
next
  case (Operation t as fm ex)
  from Operation.prems have all: "\<And>a. a \<in> set as \<Longrightarrow> converts a"
    by (simp add: list_all_iff)
  have IH: "\<exists>s vm'. operation_to_sympy L a vm sf = Inr (s, vm')" if "a \<in> set as" for a vm
    using Operation.IH [OF that all [OF that]] .
  from Operation.prems consider
      (n) "t \<in> set nary_tags"
    | (b) "t \<in> set binary_tags" "2 \<le> length as"
    | (u) "t \<in> set unary_tags" "1 \<le> length as"
    by auto
  then show ?case
  proof cases
    case n
    from o2s_list_total [of as L sf vm] IH obtain ss vm' where
      "o2s_list L as vm sf = Inr (ss, vm')" by blast
    with n ok show ?thesis
      by (auto simp: o2s_Operation tables_ok_def nary_tags_def)
  next
    case b
    then obtain a0 a1 rest where as: "as = a0 # a1 # rest"
      by (cases as; cases "tl as") auto
    from IH [of a0 vm] as obtain s0 vm0 where a0: "operation_to_sympy L a0 vm sf = Inr (s0, vm0)"
      by auto
    from IH [of a1 vm0] as obtain s1 vm1 where a1: "operation_to_sympy L a1 vm0 sf = Inr (s1, vm1)"
      by auto
    from ok have neg: "Tag_NEG \<notin> set (supportedOperationsN L)"
      "Tag_NEG \<notin> set (supportedOperations2 L)" "Tag_NEG \<in> set (supportedOperations1 L)"
      by (simp_all add: tables_ok_def unary_tags_def)
    have root: "operation_to_sympy L (Operation Tag_NEG [a1] (default_format L) (default_exponent L)) vm0 sf
        = Inr (S_Mul [s1, S_Integer (- 1)], vm1)"
      using neg a1 by (simp add: o2s_Operation)
    from b(1) ok have "t \<notin> set (supportedOperationsN L)" "t \<in> set (supportedOperations2 L)"
      by (auto simp: tables_ok_def binary_tags_def)
    with b(1) as a0 a1 root show ?thesis
      by (auto simp: o2s_Operation binary_tags_def)
  next
    case u
    then obtain a rest where as: "as = a # rest"
      by (cases as) auto
    from IH [of a vm] as obtain s vm1 where a: "operation_to_sympy L a vm sf = Inr (s, vm1)"
      by auto
    from u(1) ok have "t \<notin> set (supportedOperationsN L)" "t \<notin> set (supportedOperations2 L)"
      "t \<in> set (supportedOperations1 L)"
      by (auto simp: tables_ok_def unary_tags_def)
    with u(1) as a show ?thesis
      by (auto simp: o2s_Operation unary_tags_def)
  qed
qed

lemma example_lib_tables_ok: "tables_ok example_lib"
  by (simp add: tables_ok_def example_lib_def nary_tags_def binary_tags_def unary_tags_def)

text \<open>
  C6. The forward conversion raises on arguments of the supported kinds. The branch of
  log10 hands its argument to the CAS as it is, where every other branch converts it:
  the outcome is that of the CAS on an object of the LaTeX tree, an exception when the
  CAS refuses the object, and \<^verbatim>\<open>varMap\<close> is returned as it was. A variable that holds
  an infinity, or the float that is not a number, under the name \<^verbatim>\<open>%g\<close> gives that
  float, raises \<^verbatim>\<open>OverflowError\<close>, or \<^verbatim>\<open>ValueError\<close>, from \<^verbatim>\<open>int(arg.value)\<close>.
\<close>

theorem forward_conversion_raises:
  "(Tag_LOG10 \<notin> set (supportedOperationsN L) \<and> Tag_LOG10 \<notin> set (supportedOperations2 L)
      \<and> Tag_LOG10 \<in> set (supportedOperations1 L) \<longrightarrow>
    operation_to_sympy L (Operation Tag_LOG10 (a # rest) fm ex) varMap sf =
      (case sympify_obj L a of
         None \<Rightarrow> Inl SympifyError
       | Some s \<Rightarrow> Inr (sympy_log2 s (S_Integer 10), varMap)))
   \<and> operation_to_sympy L (Variable (fmt_g L PosInf) (Some PosInf)) varMap sf = Inl OverflowError
   \<and> operation_to_sympy L (Variable (fmt_g L NegInf) (Some NegInf)) varMap sf = Inl OverflowError
   \<and> operation_to_sympy L (Variable (fmt_g L NaN) (Some NaN)) varMap sf = Inl ValueError"
  by (simp add: o2s_Operation)

theorem forward_conversion_raises_witness:
  "operation_to_sympy example_lib
     (Operation Tag_LOG10
        [Operation Tag_ADD [Variable ''x'' None, Variable ''y'' None] ''%.4g'' 0] ''%.4g'' 0)
     Map.empty False = Inl SympifyError
   \<and> operation_to_sympy example_lib (Variable ''inf'' (Some PosInf)) Map.empty False
       = Inl OverflowError
   \<and> operation_to_sympy example_lib (Variable ''nan'' (Some NaN)) Map.empty False
       = Inl ValueError"
  using forward_conversion_raises [where L = example_lib
          and a = "Operation Tag_ADD [Variable ''x'' None, Variable ''y'' None] ''%.4g'' 0"
          and rest = "[]" and fm = "''%.4g''" and ex = 0 and varMap = Map.empty and sf = False]
  by (simp add: example_lib_def)

section \<open>Calls on stored objects\<close>

lemma function_on_Variable:
  "h ! arg = Variable name val \<Longrightarrow> function_on f h arg = Inr (arg, h)"
  by (simp add: function_on_def)

lemma function_on_Foreign:
  "h ! arg = Foreign cls \<Longrightarrow> function_on f h arg = Inl TypeError"
  by (simp add: function_on_def)

lemma function_on_Expression:
  "h ! arg = Expression name operation \<Longrightarrow>
   function_on f h arg =
     (case f operation of Inl e \<Rightarrow> Inl e | Inr r \<Rightarrow> Inr (length h, h @ [Expression name r]))"
  by (simp add: function_on_def method_on_def Let_def split: sum.splits)

lemma function_on_Operation:
  "h ! arg = Operation t as fm ex \<Longrightarrow>
   function_on f h arg =
     (case f (Operation t as fm ex) of Inl e \<Rightarrow> Inl e | Inr r \<Rightarrow> Inr (length h, h @ [r]))"
  by (simp add: function_on_def)


lemma function_on_example:
  "function_on (run example_lib cas_unchanged (Simplify False []))
      [Expression ''e'' (Operation Tag_POS [Variable ''x'' None] ''%.4g'' 0)] 0
     = Inr (1, [Expression ''e'' (Operation Tag_POS [Variable ''x'' None] ''%.4g'' 0),
                Expression ''e'' (Variable ''x'' None)])"
  by (simp add: function_on_Expression run_example_POS [simplified])



text \<open>
  C8. Each of the six functions returns a variable as the very object it was given,
  with no object changed and whatever the CAS is; it raises \<^verbatim>\<open>TypeError\<close> for an object
  that is no variable, expression or operation; an expression and an operation are
  taken, and the outcome is that of processing them.
\<close>

theorem argument_type_outcomes:
  "(h ! arg = Variable name val \<longrightarrow> function_on (run L cas c) h arg = Inr (arg, h))
   \<and> (h ! arg = Foreign cls \<longrightarrow> function_on (run L cas c) h arg = Inl TypeError)
   \<and> (h ! arg = Expression name operation \<longrightarrow>
        function_on (run L cas c) h arg =
          (case run L cas c operation of
             Inl e \<Rightarrow> Inl e
           | Inr r \<Rightarrow> Inr (length h, h @ [Expression name r])))
   \<and> (h ! arg = Operation t as fm ex \<longrightarrow>
        function_on (run L cas c) h arg =
          (case run L cas c (Operation t as fm ex) of
             Inl e \<Rightarrow> Inl e
           | Inr r \<Rightarrow> Inr (length h, h @ [r])))"
  by (simp add: function_on_Variable function_on_Foreign function_on_Expression
        function_on_Operation)

theorem argument_type_outcomes_witness:
  "function_on (run example_lib cas_unchanged (Collect (Syms_list []) False []))
      [Variable ''x'' None, Foreign ''int''] 0 = Inr (0, [Variable ''x'' None, Foreign ''int''])
   \<and> function_on (run example_lib cas_unchanged (Collect (Syms_list []) False []))
      [Variable ''x'' None, Foreign ''int''] 1 = Inl TypeError"
  using argument_type_outcomes [where h = "[Variable ''x'' None, Foreign ''int'']" and arg = 0
          and name = "''x''" and val = None and L = example_lib and cas = cas_unchanged
          and c = "Collect (Syms_list []) False []"]
        argument_type_outcomes [where h = "[Variable ''x'' None, Foreign ''int'']" and arg = 1
          and cls = "''int''" and L = example_lib and cas = cas_unchanged
          and c = "Collect (Syms_list []) False []"]
  by simp

section \<open>The check of \<open>syms\<close> in collect\<close>

text \<open>
  C9. On an operation, \<^verbatim>\<open>collect\<close> with a \<^verbatim>\<open>syms\<close> that is not a \<^verbatim>\<open>Variable\<close>, a list of
  variables included, raises: the exception of the forward conversion if that raises,
  and \<^verbatim>\<open>TypeError\<close> otherwise. The CAS does not occur in the outcome: its entry point is
  not reached.
\<close>

theorem collect_rejects_other_syms:
  assumes "\<not> syms_is_Variable syms"
  shows "collect L cas (Operation t as fm ex) syms sf kw =
           (case operation_to_sympy L (Operation t as fm ex) Map.empty sf of
              Inl e \<Rightarrow> Inl e
            | Inr r \<Rightarrow> Inl TypeError)"
  using assms
  by (auto simp: syms_is_Variable_def split: sum.splits syms.splits node.splits)

theorem collect_rejects_other_syms_witness:
  "\<not> syms_is_Variable (Syms_list [Variable ''x'' None])
   \<and> collect example_lib cas_unchanged
        (Operation Tag_ADD [Variable ''x'' None, Variable ''y'' None] ''%.4g'' 0)
        (Syms_list [Variable ''x'' None]) False [] = Inl TypeError"
proof -
  have no: "\<not> syms_is_Variable (Syms_list [Variable ''x'' None])"
    by (simp add: syms_is_Variable_def)
  from collect_rejects_other_syms [OF no] no show ?thesis
    by (simp add: o2s_Operation example_lib_def)
qed

section \<open>The functions on an expression\<close>

text \<open>
  C10. Each of the six functions, called on an expression, returns a new object, a copy
  of the expression that holds the processed operation; the expression it was given is
  afterwards as it was, its field \<^verbatim>\<open>operation\<close> included, and so is every other object.
\<close>

theorem module_function_copies_expression:
  assumes "arg < length h" and "h ! arg = Expression name operation"
    and "function_on (run L cas c) h arg = Inr (ret, h')"
  shows "ret = length h \<and> ret \<noteq> arg \<and> h' ! arg = Expression name operation
         \<and> take (length h) h' = h
         \<and> (\<exists>r. run L cas c operation = Inr r \<and> h' ! ret = Expression name r)"
  using assms by (auto simp: function_on_Expression nth_append split: sum.splits)

theorem module_function_copies_expression_witness:
  "function_on (run example_lib cas_unchanged (Simplify False []))
      [Expression ''e'' (Operation Tag_POS [Variable ''x'' None] ''%.4g'' 0)] 0
     = Inr (1, [Expression ''e'' (Operation Tag_POS [Variable ''x'' None] ''%.4g'' 0),
                Expression ''e'' (Variable ''x'' None)])
   \<and> (1::nat) \<noteq> 0
   \<and> [Expression ''e'' (Operation Tag_POS [Variable ''x'' None] ''%.4g'' 0),
       Expression ''e'' (Variable ''x'' None)] ! 0
      = Expression ''e'' (Operation Tag_POS [Variable ''x'' None] ''%.4g'' 0)"
  using module_function_copies_expression [OF _ _ function_on_example] function_on_example
  by simp

end
